theory Spec2Isabelle
  imports Main
begin

section \<open>Python values used by \<open>main.py\<close>\<close>

text \<open>
  A Python \<open>str\<close> is modelled as a \<open>string\<close>; a \<open>char\<close> stands for the code point
  of the same number, so the model covers the strings whose code points are below 256.
  \<open>str.isspace\<close> on these code points holds exactly for 9-13, 28-32, 133 and 160.
\<close>

definition isspace :: "char \<Rightarrow> bool" where
  "isspace c = ((of_char c :: nat) \<in> {9, 10, 11, 12, 13, 28, 29, 30, 31, 32, 133, 160})"

text \<open>\<open>s.strip()\<close>: leading and trailing whitespace removed.\<close>

definition strip :: "string \<Rightarrow> string" where
  "strip s = rev (dropWhile isspace (rev (dropWhile isspace s)))"

text \<open>\<open>str(n)\<close> for a non-negative integer, as the f-string \<open>{count}\<close> formats it.\<close>

definition digit_char :: "nat \<Rightarrow> char" where
  "digit_char d = ''0123456789'' ! d"

fun str_nat :: "nat \<Rightarrow> string" where
  "str_nat n = (if n < 10 then [digit_char n] else str_nat (n div 10) @ [digit_char (n mod 10)])"

declare str_nat.simps [simp del]

text \<open>Zero padding to a width, as \<open>strftime\<close> pads \<open>%H\<close>, \<open>%M\<close>, \<open>%S\<close>, \<open>%m\<close>, \<open>%d\<close> and \<open>%Y\<close>.\<close>

definition zfill :: "nat \<Rightarrow> string \<Rightarrow> string" where
  "zfill k s = replicate (k - length s) (CHR ''0'') @ s"

record datetime =
  year :: nat
  month :: nat
  day :: nat
  hour :: nat
  minute :: nat
  second :: nat

text \<open>\<open>strftime('%H:%M:%S')\<close>, \<open>strftime('%Y-%m-%d')\<close> and \<open>strftime('%Y-%m-%d %H:%M:%S')\<close>.\<close>

definition strftime_HMS :: "datetime \<Rightarrow> string" where
  "strftime_HMS t =
     zfill 2 (str_nat (hour t)) @ '':'' @ zfill 2 (str_nat (minute t)) @ '':'' @
     zfill 2 (str_nat (second t))"

definition strftime_Ymd :: "datetime \<Rightarrow> string" where
  "strftime_Ymd t =
     zfill 4 (str_nat (year t)) @ ''-'' @ zfill 2 (str_nat (month t)) @ ''-'' @
     zfill 2 (str_nat (day t))"

definition strftime_Ymd_HMS :: "datetime \<Rightarrow> string" where
  "strftime_Ymd_HMS t = strftime_Ymd t @ '' '' @ strftime_HMS t"

text \<open>
  An exception object, an instance of \<open>Exception\<close> (what \<open>except Exception\<close> catches);
  \<open>str_exn\<close> is what \<open>{e}\<close> prints in an f-string.
\<close>

datatype exn = Exception string

fun str_exn :: "exn \<Rightarrow> string" where
  "str_exn (Exception m) = m"

section \<open>The environment: remote worksheets, backup files, the clock\<close>

type_synonym row = "string list"

text \<open>
  A gspread worksheet handle. The library is not part of the repository, so its four
  methods that \<open>sync_single_scan\<close> calls are parameters: each takes the state \<open>'r\<close> of the
  remote spreadsheet and gives back what the call returns, or the exception it raises,
  together with the state of the remote spreadsheet afterwards.
\<close>

record 'r worksheet =
  get_all_values :: "'r \<Rightarrow> (exn + row list) \<times> 'r"
  append_row :: "row \<Rightarrow> 'r \<Rightarrow> (exn + unit) \<times> 'r"
  col_values :: "nat \<Rightarrow> 'r \<Rightarrow> (exn + string list) \<times> 'r"
  update :: "string \<Rightarrow> row list \<Rightarrow> 'r \<Rightarrow> (exn + unit) \<times> 'r"

text \<open>
  What the operating system does to one call of \<open>save_to_csv\<close>: \<open>open\<close> may raise, and so
  may either \<open>writerow\<close>.
\<close>

datatype csv_fault = OpenFails exn | HeaderWriteFails exn | RowWriteFails exn

text \<open>
  What one call of \<open>scan_id\<close> reads from outside: the four readings of
  \<open>datetime.now()\<close>, in the order of the calls, and the fault of the backup write, if any.
\<close>

record scan_env =
  now_time :: datetime
  now_date :: datetime
  now_saved :: datetime
  now_uploaded :: datetime
  csv_fault :: "csv_fault option"

text \<open>
  The state a scan works on: the five entries of \<open>st.session_state\<close>, the regular files of
  the working directory (a file as its text), the remote spreadsheet, and the messages
  shown by \<open>st.error\<close>. An entry of \<open>local_data\<close> is the tuple
  \<open>(driver_id, scan_time, scan_date, station)\<close>.
\<close>

type_synonym event = "string \<times> string \<times> string \<times> string"

record 'r world =
  local_data :: "event list"
  status_text :: string
  count_message :: string
  count_color :: string
  sheets :: "string \<rightharpoonup> 'r worksheet option"
  files :: "string \<rightharpoonup> string"
  remote :: 'r
  ui_errors :: "string list"

text \<open>
  \<open>initialize_session_state\<close> on a fresh session; the worksheets (the result of
  \<open>initialize_google_sheets\<close>), the files and the remote spreadsheet are given.
\<close>

definition initialize_session_state ::
  "(string \<rightharpoonup> 'r worksheet option) \<Rightarrow> (string \<rightharpoonup> string) \<Rightarrow> 'r \<Rightarrow> 'r world" where
  "initialize_session_state shs fs r =
     \<lparr>local_data = [], status_text = ''Initializing...'', count_message = '''',
      count_color = ''lightgreen'', sheets = shs, files = fs, remote = r, ui_errors = []\<rparr>"

section \<open>\<open>save_to_csv\<close>\<close>

definition csv_header :: row where
  "csv_header = [''Driver ID'', ''Scan Time'', ''Scan Date'', ''Station'', ''Saved At'']"

definition csv_filename :: "string \<Rightarrow> string" where
  "csv_filename station = station @ ''_scans.csv''"

text \<open>
  The line that \<open>csv.writer\<close> (the default dialect) writes for a row: a field that holds a
  comma, a double quote, a carriage return or a line feed is put in double quotes, with its
  double quotes doubled; the fields are joined by commas; a row of one empty field is
  written as two double quotes; the line ends in carriage return and line feed.
\<close>

definition csv_field :: "string \<Rightarrow> string" where
  "csv_field f =
     (if list_ex (\<lambda>c. c \<in> set [CHR '','', CHR 0x22, CHR 0x0D, CHR 0x0A]) f
      then [CHR 0x22] @ concat (map (\<lambda>c. if c = CHR 0x22 then [CHR 0x22, CHR 0x22] else [c]) f) @
           [CHR 0x22]
      else f)"

fun csv_join :: "string list \<Rightarrow> string" where
  "csv_join [] = []"
| "csv_join [f] = f"
| "csv_join (f # g # fs) = f @ '','' @ csv_join (g # fs)"

definition csv_line :: "row \<Rightarrow> string" where
  "csv_line r =
     (if r = [[]] then [CHR 0x22, CHR 0x22] else csv_join (map csv_field r)) @
     [CHR 0x0D, CHR 0x0A]"

text \<open>
  \<open>writer.writerow(r)\<close> on the file opened in append mode with \<open>newline=""\<close>: the line of
  the row is put after the text the file has.
\<close>

definition writerow :: "string \<Rightarrow> row \<Rightarrow> (string \<rightharpoonup> string) \<Rightarrow> (string \<rightharpoonup> string)" where
  "writerow filename r fs =
     fs(filename \<mapsto> (case fs filename of None \<Rightarrow> [] | Some content \<Rightarrow> content) @ csv_line r)"

text \<open>
  The result is the exception that leaves \<open>save_to_csv\<close>, if any, and the files afterwards.
  \<open>os.path.isfile\<close> holds for the files of the map; opening in mode \<open>"a"\<close> creates a
  missing file, with no text; a write that raises leaves the file as it was before that
  write.
\<close>

definition save_to_csv ::
  "csv_fault option \<Rightarrow> string \<Rightarrow> string \<Rightarrow> string \<Rightarrow> string \<Rightarrow> string \<Rightarrow>
   (string \<rightharpoonup> string) \<Rightarrow> exn option \<times> (string \<rightharpoonup> string)" where
  "save_to_csv fault saved_at driver_id scan_time scan_date station fs =
     (let filename = csv_filename station;
          file_exists = (fs filename \<noteq> None)
      in case fault of
           Some (OpenFails e) \<Rightarrow> (Some e, fs)
         | _ \<Rightarrow>
           (let fs1 = (if file_exists then fs else fs(filename \<mapsto> []))
            in case (if file_exists then (None, fs1)
                     else (case fault of
                             Some (HeaderWriteFails e) \<Rightarrow> (Some e, fs1)
                           | _ \<Rightarrow> (None, writerow filename csv_header fs1))) of
                 (Some e, fs2) \<Rightarrow> (Some e, fs2)
               | (None, fs2) \<Rightarrow>
                   (case fault of
                      Some (RowWriteFails e) \<Rightarrow> (Some e, fs2)
                    | _ \<Rightarrow>
                      (None, writerow filename
                         [driver_id, scan_time, scan_date, station, saved_at] fs2))))"

section \<open>\<open>sync_single_scan\<close>\<close>

definition sheet_header :: row where
  "sheet_header = [''Driver ID'', ''Scan Time'', ''Scan Date'', ''Station'', ''Uploaded At'']"

text \<open>
  \<open>st.session_state.sheets.get(station)\<close>: \<open>None\<close> for a missing key and for a stored
  \<open>None\<close>. A worksheet object is true in \<open>if not sheet\<close>.
\<close>

definition sheets_get :: "(string \<rightharpoonup> 'r worksheet option) \<Rightarrow> string \<Rightarrow> 'r worksheet option" where
  "sheets_get shs station = (case shs station of None \<Rightarrow> None | Some v \<Rightarrow> v)"

text \<open>\<open>next_row = len(values) + 1 if values else 2\<close>.\<close>

definition next_row :: "string list \<Rightarrow> nat" where
  "next_row vals = (if vals \<noteq> [] then length vals + 1 else 2)"

text \<open>The f-string \<open>A{next_row}:E{next_row}\<close>.\<close>

definition range_name :: "nat \<Rightarrow> string" where
  "range_name n = ''A'' @ str_nat n @ '':E'' @ str_nat n"

text \<open>
  The calls of the worksheet in the \<open>try\<close> block, in their order: the exception the first
  failing call raises, if any, and the remote spreadsheet afterwards. An empty list is
  false in \<open>if not existing_data\<close>.
\<close>

definition upload ::
  "'r worksheet \<Rightarrow> string \<Rightarrow> string \<Rightarrow> string \<Rightarrow> string \<Rightarrow> string \<Rightarrow> 'r \<Rightarrow> (exn + unit) \<times> 'r" where
  "upload sheet uploaded_at driver_id scan_time scan_date station r =
     (case get_all_values sheet r of
        (Inl e, r1) \<Rightarrow> (Inl e, r1)
      | (Inr existing_data, r1) \<Rightarrow>
          (case (if existing_data = [] then append_row sheet sheet_header r1 else (Inr (), r1)) of
             (Inl e, r2) \<Rightarrow> (Inl e, r2)
           | (Inr _, r2) \<Rightarrow>
               (case col_values sheet 1 r2 of
                  (Inl e, r3) \<Rightarrow> (Inl e, r3)
                | (Inr vals, r3) \<Rightarrow>
                    update sheet (range_name (next_row vals))
                      [[driver_id, scan_time, scan_date, station, uploaded_at]] r3)))"

text \<open>
  The \<open>try\<close> and \<open>except Exception\<close> around the upload; the traceback printed to the
  standard output is left out.
\<close>

definition sync_single_scan ::
  "string \<Rightarrow> string \<Rightarrow> string \<Rightarrow> string \<Rightarrow> string \<Rightarrow> 'r world \<Rightarrow> 'r world" where
  "sync_single_scan uploaded_at driver_id scan_time scan_date station w =
     (case sheets_get (sheets w) station of
        None \<Rightarrow> w\<lparr>status_text := ''No Google Sheet tab available for '' @ station\<rparr>
      | Some sheet \<Rightarrow>
          (case upload sheet uploaded_at driver_id scan_time scan_date station (remote w) of
             (Inr _, r) \<Rightarrow>
               w\<lparr>remote := r,
                 status_text := ''Uploaded to '' @ station @ '' Google Sheet tab: '' @ driver_id\<rparr>
           | (Inl e, r) \<Rightarrow>
               w\<lparr>remote := r, status_text := ''Google Sheets sync failed: '' @ str_exn e\<rparr>))"

section \<open>\<open>scan_id\<close>\<close>

text \<open>The list comprehension of \<open>today_scans\<close>: \<open>d[0]\<close>, \<open>d[2]\<close> and \<open>d[3]\<close> compared.\<close>

definition today_scans :: "event list \<Rightarrow> string \<Rightarrow> string \<Rightarrow> string \<Rightarrow> event list" where
  "today_scans ld driver_id scan_date station =
     filter (\<lambda>(d0, d1, d2, d3). d0 = driver_id \<and> d2 = scan_date \<and> d3 = station) ld"

text \<open>
  The result is the exception that leaves \<open>scan_id\<close>, if any (it returns \<open>None\<close> otherwise),
  and the state afterwards.
\<close>

definition scan_id :: "scan_env \<Rightarrow> string \<Rightarrow> string \<Rightarrow> 'r world \<Rightarrow> exn option \<times> 'r world" where
  "scan_id env driver_id station w =
     (if strip driver_id = [] then
        (None, w\<lparr>ui_errors := ui_errors w @ [''Please enter a Driver ID'']\<rparr>)
      else
        (let scan_time = strftime_HMS (now_time env);
             scan_date = strftime_Ymd (now_date env);
             w1 = w\<lparr>local_data := local_data w @ [(driver_id, scan_time, scan_date, station)],
                    status_text := ''Scanned locally: '' @ driver_id @ '' @ '' @ station\<rparr>
         in case save_to_csv (csv_fault env) (strftime_Ymd_HMS (now_saved env))
                   driver_id scan_time scan_date station (files w1) of
              (Some e, fs) \<Rightarrow> (Some e, w1\<lparr>files := fs\<rparr>)
            | (None, fs) \<Rightarrow>
                (let w2 = w1\<lparr>files := fs\<rparr>;
                     count = length (today_scans (local_data w2) driver_id scan_date station);
                     w3 = (if count > 5 then
                             w2\<lparr>count_message := ''Driver '' @ driver_id @ '' scanned '' @
                                   str_nat count @ '' times at '' @ station @
                                   '' - Take break after this delivery'',
                                count_color := ''yellow''\<rparr>
                           else
                             w2\<lparr>count_message := ''Driver '' @ driver_id @ '' scanned '' @
                                   str_nat count @ '' times today at '' @ station,
                                count_color := ''lightgreen''\<rparr>)
                 in (None, sync_single_scan (strftime_Ymd_HMS (now_uploaded env))
                             driver_id scan_time scan_date station w3))))"

section \<open>\<open>main\<close>: submitting the form, rendering the count\<close>

text \<open>\<open>if scan_button and driver_id: scan_id(driver_id, selected_station)\<close>.\<close>

definition submit :: "scan_env \<Rightarrow> string \<Rightarrow> string \<Rightarrow> 'r world \<Rightarrow> exn option \<times> 'r world" where
  "submit env driver_id station w =
     (if driver_id \<noteq> [] then scan_id env driver_id station w else (None, w))"

text \<open>
  A session is a sequence of submitted forms; each is a run of the script on the session
  state the run before left, whether or not that run ended in an exception.
\<close>

type_synonym request = "scan_env \<times> string \<times> string"

fun run_session :: "request list \<Rightarrow> 'r world \<Rightarrow> 'r world" where
  "run_session [] w = w"
| "run_session ((env, driver_id, station) # rs) w =
     run_session rs (snd (submit env driver_id station w))"

text \<open>
  The count display: \<open>st.warning\<close> when \<open>count_color\<close> is \<open>"yellow"\<close>, \<open>st.success\<close> otherwise.
\<close>

datatype alert = NORMAL | BREAK_DUE

definition alert_state :: "'r world \<Rightarrow> alert" where
  "alert_state w = (if count_color w = ''yellow'' then BREAK_DUE else NORMAL)"




section \<open>What a scan records\<close>

text \<open>
  The tuple that \<open>scan_id\<close> appends to \<open>local_data\<close>, and the row that \<open>save_to_csv\<close>
  writes for it.
\<close>

definition scan_event :: "scan_env \<Rightarrow> string \<Rightarrow> string \<Rightarrow> event" where
  "scan_event env driver_id station =
     (driver_id, strftime_HMS (now_time env), strftime_Ymd (now_date env), station)"

definition csv_row :: "scan_env \<Rightarrow> string \<Rightarrow> string \<Rightarrow> row" where
  "csv_row env driver_id station =
     [driver_id, strftime_HMS (now_time env), strftime_Ymd (now_date env), station,
      strftime_Ymd_HMS (now_saved env)]"

text \<open>The call of \<open>save_to_csv\<close> that \<open>scan_id\<close> makes.\<close>

definition backup :: "scan_env \<Rightarrow> string \<Rightarrow> string \<Rightarrow> (string \<rightharpoonup> string) \<Rightarrow>
    exn option \<times> (string \<rightharpoonup> string)" where
  "backup env driver_id station fs =
     save_to_csv (csv_fault env) (strftime_Ymd_HMS (now_saved env)) driver_id
       (strftime_HMS (now_time env)) (strftime_Ymd (now_date env)) station fs"


text \<open>
  The row as the specification words it: the number of non-empty values of the first
  column plus one, and at least 2. The code computes \<open>next_row\<close>.
\<close>

definition spec_next_row :: "string list \<Rightarrow> nat" where
  "spec_next_row vals = max 2 (length (filter (\<lambda>v. v \<noteq> []) vals) + 1)"

section \<open>Concrete inputs for the examples\<close>

text \<open>
  A worksheet that answers \<open>get_all_values\<close> and \<open>col_values\<close> from fixed data, raises the
  given exception (if any) in \<open>update\<close>, and keeps the list of the calls it received as the
  state of the remote spreadsheet.
\<close>

datatype call = GetAllValues | AppendRow row | ColValues nat | Update string "row list"

definition recording_sheet :: "row list \<Rightarrow> string list \<Rightarrow> exn option \<Rightarrow> call list worksheet" where
  "recording_sheet data vals failure =
     \<lparr>get_all_values = (\<lambda>log. (Inr data, log @ [GetAllValues])),
      append_row = (\<lambda>r log. (Inr (), log @ [AppendRow r])),
      col_values = (\<lambda>k log. (Inr vals, log @ [ColValues k])),
      update = (\<lambda>rng vs log.
        (case failure of None \<Rightarrow> Inr () | Some e \<Rightarrow> Inl e, log @ [Update rng vs]))\<rparr>"

definition noon :: datetime where
  "noon = \<lparr>year = 2025, month = 3, day = 9, hour = 12, minute = 0, second = 7\<rparr>"

definition calm :: scan_env where
  "calm = \<lparr>now_time = noon, now_date = noon, now_saved = noon, now_uploaded = noon,
           csv_fault = None\<rparr>"

definition disk_full :: scan_env where
  "disk_full = calm\<lparr>csv_fault := Some (RowWriteFails (Exception ''No space left on device''))\<rparr>"

text \<open>A fresh session with no worksheet for any station and no backup file.\<close>

definition offline :: "call list world" where
  "offline = initialize_session_state Map.empty Map.empty []"


text \<open>
  A fresh session whose station \<open>DUD2\<close> has a worksheet that answers with the given
  values of the tab and of its first column.
\<close>

definition tab :: "row list \<Rightarrow> string list \<Rightarrow> call list world" where
  "tab data vals =
     initialize_session_state [''DUD2'' \<mapsto> Some (recording_sheet data vals None)] Map.empty []"

text \<open>The backup write fails at the header.\<close>

definition header_fault :: scan_env where
  "header_fault =
     calm\<lparr>csv_fault := Some (HeaderWriteFails (Exception ''No space left on device''))\<rparr>"

text \<open>A fresh session that finds the backup file of \<open>DUD2\<close> in place, without text.\<close>

definition stale :: "call list world" where
  "stale = initialize_session_state Map.empty [''DUD2_scans.csv'' \<mapsto> []] []"

text \<open>A session in which driver \<open>D123\<close> has been scanned \<open>n\<close> times at \<open>DUD2\<close>.\<close>

definition scanned :: "nat \<Rightarrow> call list world" where
  "scanned n = offline\<lparr>local_data := replicate n (scan_event calm ''D123'' ''DUD2'')\<rparr>"

text \<open>The same readings with the date of the day before.\<close>

definition eve :: scan_env where
  "eve = calm\<lparr>now_date := noon\<lparr>day := 8\<rparr>\<rparr>"

text \<open>
  A session of nine submitted forms: five valid scans of \<open>D123\<close> at \<open>DUD2\<close> on the day of
  \<open>calm\<close>, one on the day before, one of another driver, one at another station and a
  blank one.
\<close>

definition morning :: "request list" where
  "morning =
     [(calm, ''D123'', ''DUD2''), (calm, ''D9'', ''DUD2''), (calm, ''D123'', ''DUD3''),
      (calm, ''D123'', ''DUD2''), (eve, ''D123'', ''DUD2''), (calm, ''D123'', ''DUD2''),
      (calm, ''D123'', ''DUD2''), (calm, ''  '', ''DUD2''), (calm, ''D123'', ''DUD2'')]"

section \<open>Properties of the helpers\<close>

lemma strip_Nil_iff: "strip s = [] \<longleftrightarrow> list_all isspace s"
proof (cases "dropWhile isspace s")
  case Nil
  then have "strip s = []" by (simp only: strip_def rev.simps dropWhile.simps)
  moreover have "list_all isspace s"
    using Nil unfolding dropWhile_eq_Nil_conv list_all_iff .
  ultimately show ?thesis by simp
next
  case (Cons a as)
  then have na: "\<not> isspace a" using hd_dropWhile [of isspace s] by simp
  have "a \<in> set (rev (dropWhile isspace s))" using Cons by simp
  with na have "dropWhile isspace (rev (dropWhile isspace s)) \<noteq> []"
    unfolding dropWhile_eq_Nil_conv by blast
  then have "strip s \<noteq> []" by (simp add: strip_def)
  moreover have "\<not> list_all isspace s"
    using Cons dropWhile_eq_Nil_conv [of isspace s] by (auto simp: list_all_iff)
  ultimately show ?thesis by simp
qed

lemma sync_keeps:
  "local_data (sync_single_scan u d t dt st w) = local_data w"
  "count_message (sync_single_scan u d t dt st w) = count_message w"
  "count_color (sync_single_scan u d t dt st w) = count_color w"
  "files (sync_single_scan u d t dt st w) = files w"
  "ui_errors (sync_single_scan u d t dt st w) = ui_errors w"
  "sheets (sync_single_scan u d t dt st w) = sheets w"
  by (simp_all add: sync_single_scan_def split: option.splits prod.splits sum.splits)

lemma today_scans_append:
  "today_scans (xs @ ys) d dt st = today_scans xs d dt st @ today_scans ys d dt st"
  by (simp add: today_scans_def)

lemma today_scans_own:
  "today_scans [scan_event env d st] d (strftime_Ymd (now_date env)) st = [scan_event env d st]"
  by (simp add: today_scans_def scan_event_def)

text \<open>The three ways through \<open>scan_id\<close>.\<close>

lemma scan_id_raised:
  assumes "strip d \<noteq> []" and "fst (backup env d st (files w)) = Some e"
  shows "scan_id env d st w =
    (Some e, w\<lparr>local_data := local_data w @ [scan_event env d st],
               status_text := ''Scanned locally: '' @ d @ '' @ '' @ st,
               files := snd (backup env d st (files w))\<rparr>)"
proof (cases "backup env d st (files w)")
  case (Pair x fs)
  with assms show ?thesis
    by (simp add: scan_id_def backup_def scan_event_def Let_def)
qed

lemma scan_id_processed:
  assumes "strip d \<noteq> []" and "fst (backup env d st (files w)) = None"
  shows "scan_id env d st w =
    (None,
     sync_single_scan (strftime_Ymd_HMS (now_uploaded env)) d (strftime_HMS (now_time env))
       (strftime_Ymd (now_date env)) st
       (let c = Suc (length (today_scans (local_data w) d (strftime_Ymd (now_date env)) st))
        in w\<lparr>local_data := local_data w @ [scan_event env d st],
             status_text := ''Scanned locally: '' @ d @ '' @ '' @ st,
             files := snd (backup env d st (files w)),
             count_message :=
               (if 5 < c
                then ''Driver '' @ d @ '' scanned '' @ str_nat c @ '' times at '' @ st @
                     '' - Take break after this delivery''
                else ''Driver '' @ d @ '' scanned '' @ str_nat c @ '' times today at '' @ st),
             count_color := (if 5 < c then ''yellow'' else ''lightgreen'')\<rparr>))"
proof (cases "backup env d st (files w)")
  case (Pair x fs)
  with assms show ?thesis
    by (simp add: scan_id_def backup_def scan_event_def Let_def today_scans_def)
qed

lemma backup_ok:
  assumes "fst (backup env d st fs) = None"
  shows "snd (backup env d st fs) =
     fs(csv_filename st \<mapsto>
        (case fs (csv_filename st) of None \<Rightarrow> csv_line csv_header | Some content \<Rightarrow> content) @
        csv_line (csv_row env d st))"
  using assms
  by (auto simp add: backup_def save_to_csv_def writerow_def csv_row_def Let_def
           split: prod.splits option.splits csv_fault.splits if_splits)

lemma backup_calm:
  "csv_fault env = None \<Longrightarrow> fst (backup env d st fs) = None"
  by (simp add: backup_def save_to_csv_def Let_def)

lemma strip_D1: "strip ''D1'' = ''D1''"
  by (simp add: strip_def isspace_def)

lemma backup_disk_full_offline:
  "backup disk_full ''D1'' ''DUD2'' Map.empty =
     (Some (Exception ''No space left on device''),
      [''DUD2_scans.csv'' \<mapsto> csv_line csv_header])"
  by (simp add: backup_def save_to_csv_def disk_full_def calm_def csv_filename_def
        writerow_def Let_def)

lemma sync_no_target:
  "sheets_get (sheets w) st = None \<Longrightarrow>
   sync_single_scan u d t dt st w = w\<lparr>status_text := ''No Google Sheet tab available for '' @ st\<rparr>"
  by (simp add: sync_single_scan_def)


text \<open>An exception of any of the four worksheet calls is an exception of the upload.\<close>

lemma upload_raises:
  "get_all_values sheet r = (Inl e, r1) \<Longrightarrow> upload sheet u d t dt st r = (Inl e, r1)"
  "get_all_values sheet r = (Inr [], r1) \<Longrightarrow> append_row sheet sheet_header r1 = (Inl e, r2) \<Longrightarrow>
     upload sheet u d t dt st r = (Inl e, r2)"
  "get_all_values sheet r = (Inr (x # xs), r1) \<Longrightarrow> col_values sheet 1 r1 = (Inl e, r3) \<Longrightarrow>
     upload sheet u d t dt st r = (Inl e, r3)"
  "get_all_values sheet r = (Inr [], r1) \<Longrightarrow> append_row sheet sheet_header r1 = (Inr (), r2) \<Longrightarrow>
     col_values sheet 1 r2 = (Inl e, r3) \<Longrightarrow> upload sheet u d t dt st r = (Inl e, r3)"
  "get_all_values sheet r = (Inr (x # xs), r1) \<Longrightarrow> col_values sheet 1 r1 = (Inr vals, r3) \<Longrightarrow>
     update sheet (range_name (next_row vals)) [[d, t, dt, st, u]] r3 = (Inl e, r4) \<Longrightarrow>
     upload sheet u d t dt st r = (Inl e, r4)"
  by (simp_all add: upload_def)

lemma sync_uploaded:
  assumes "sheets_get (sheets w) st = Some sheet" and "fst (upload sheet u d t dt st (remote w)) = Inr x"
  shows "sync_single_scan u d t dt st w =
     w\<lparr>remote := snd (upload sheet u d t dt st (remote w)),
       status_text := ''Uploaded to '' @ st @ '' Google Sheet tab: '' @ d\<rparr>"
proof (cases "upload sheet u d t dt st (remote w)")
  case (Pair y r)
  with assms show ?thesis by (simp add: sync_single_scan_def)
qed

lemma calm_no_fault: "csv_fault calm = None"
  by (simp add: calm_def)

lemma offline_fields:
  "local_data offline = []" "files offline = Map.empty" "remote offline = []"
  "sheets offline = Map.empty" "count_message offline = []" "count_color offline = ''lightgreen''"
  by (simp_all add: offline_def initialize_session_state_def)


lemma str_nat_2: "str_nat 2 = ''2''"
  by (simp add: str_nat.simps digit_char_def)
lemma str_nat_4: "str_nat 4 = ''4''"
  by (simp add: str_nat.simps digit_char_def)

lemma str_nat_5: "str_nat 5 = ''5''"
  by (simp add: str_nat.simps digit_char_def)
lemma str_nat_6: "str_nat 6 = ''6''"
  by (simp add: str_nat.simps digit_char_def)



lemma today_scans_replicate:
  "today_scans (replicate n (scan_event env d st)) d (strftime_Ymd (now_date env)) st =
     replicate n (scan_event env d st)"
  by (simp add: today_scans_def scan_event_def)

lemma strip_D123: "strip ''D123'' = ''D123''"
  by (simp add: strip_def isspace_def)

lemma strip_Nil [simp]: "strip [] = []"
  by (simp add: strip_def)

lemma scan_id_local_data:
  "local_data (snd (scan_id env d st w)) =
     local_data w @ (if strip d = [] then [] else [scan_event env d st])"
proof (cases "strip d = []")
  case True
  then show ?thesis by (simp add: scan_id_def)
next
  case False
  show ?thesis
  proof (cases "fst (backup env d st (files w))")
    case None
    show ?thesis
      by (simp only: scan_id_processed [OF False None] snd_conv sync_keeps)
         (simp add: False Let_def)
  next
    case (Some e)
    show ?thesis
      by (simp add: scan_id_raised [OF False Some] False)
  qed
qed

lemma submit_local_data:
  "local_data (snd (submit env d st w)) =
     local_data w @ (if strip d = [] then [] else [scan_event env d st])"
  by (cases "d = []") (simp_all add: submit_def scan_id_local_data)

lemma run_session_local_data:
  "local_data (run_session reqs w) =
     local_data w @
     map (\<lambda>(env, d, st). scan_event env d st) (filter (\<lambda>(env, d, st). strip d \<noteq> []) reqs)"
proof (induction reqs arbitrary: w)
  case Nil
  show ?case by simp
next
  case (Cons r rs)
  obtain env d st where r: "r = (env, d, st)" by (cases r)
  show ?case
    by (simp add: r Cons.IH submit_local_data)
qed

lemma today_scans_recorded:
  assumes "strip d \<noteq> []"
  shows "length (today_scans
           (map (\<lambda>(env, d, st). scan_event env d st) (filter (\<lambda>(env, d, st). strip d \<noteq> []) reqs))
           d dt st) =
         length (filter (\<lambda>(env', d', st'). d' = d \<and> strftime_Ymd (now_date env') = dt \<and> st' = st) reqs)"
proof (induction reqs)
  case Nil
  show ?case by (simp add: today_scans_def)
next
  case (Cons r rs)
  obtain env' d' st' where r: "r = (env', d', st')" by (cases r)
  from Cons.IH assms show ?case
    by (auto simp add: r today_scans_def scan_event_def)
qed

lemma str_nat_small:
  "str_nat 3 = ''3''" "str_nat 8 = ''8''" "str_nat 9 = ''9''" "str_nat 2025 = ''2025''"
  by (simp_all add: str_nat.simps digit_char_def)

lemma dates:
  "strftime_Ymd (now_date calm) = ''2025-03-09''" "strftime_Ymd (now_date eve) = ''2025-03-08''"
  by (simp_all add: strftime_Ymd_def calm_def eve_def noon_def zfill_def str_nat_small)

lemma morning_matches:
  "length (filter (\<lambda>(env', d', st').
      d' = ''D123'' \<and> strftime_Ymd (now_date env') = strftime_Ymd (now_date calm) \<and>
      st' = ''DUD2'') morning) = 5"
  by (simp add: morning_def dates)

lemma csv_filename_inj [simp]: "csv_filename a = csv_filename b \<longleftrightarrow> a = b"
  by (simp add: csv_filename_def)

lemma digit_char_digit: "m < 10 \<Longrightarrow> digit_char m \<in> set ''0123456789''"
  unfolding digit_char_def by (rule nth_mem) simp

lemma last_str_nat: "last (str_nat n) = digit_char (n mod 10)"
  by (subst str_nat.simps) simp

lemma str_nat_not_Nil: "str_nat n \<noteq> []"
  by (subst str_nat.simps) simp

lemma last_strftime_HMS: "last (strftime_HMS t) \<in> set ''0123456789''"
proof -
  have "last (strftime_HMS t) = last (str_nat (second t))"
    by (simp add: strftime_HMS_def zfill_def str_nat_not_Nil)
  also have "\<dots> = digit_char (second t mod 10)"
    by (rule last_str_nat)
  also have "\<dots> \<in> set ''0123456789''"
    by (rule digit_char_digit) simp
  finally show ?thesis .
qed

lemma strftime_HMS_not_header: "strftime_HMS t \<noteq> ''Scan Time''"
proof
  assume "strftime_HMS t = ''Scan Time''"
  then have "last (strftime_HMS t) = CHR ''e''" by simp
  with last_strftime_HMS [of t] show False by simp
qed

lemma csv_row_not_header: "csv_row env d st \<noteq> csv_header"
  by (simp add: csv_row_def csv_header_def strftime_HMS_not_header)

lemma scan_id_files:
  assumes "csv_fault env = None"
  shows "files (snd (scan_id env d st w)) =
     (if strip d = [] then files w
      else (files w)(csv_filename st \<mapsto>
             (case files w (csv_filename st) of None \<Rightarrow> csv_line csv_header
              | Some content \<Rightarrow> content) @
             csv_line (csv_row env d st)))"
proof (cases "strip d = []")
  case True
  then show ?thesis by (simp add: scan_id_def)
next
  case False
  have ok: "fst (backup env d st (files w)) = None"
    by (rule backup_calm [OF assms])
  show ?thesis
    by (simp only: scan_id_processed [OF False ok] snd_conv sync_keeps)
       (simp add: False Let_def backup_ok [OF ok])
qed

lemma submit_files:
  assumes "csv_fault env = None"
  shows "files (snd (submit env d st w)) =
     (if strip d = [] then files w
      else (files w)(csv_filename st \<mapsto>
             (case files w (csv_filename st) of None \<Rightarrow> csv_line csv_header
              | Some content \<Rightarrow> content) @
             csv_line (csv_row env d st)))"
  by (cases "d = []") (simp_all add: submit_def scan_id_files [OF assms])

lemma run_session_files:
  assumes "list_all (\<lambda>(env, d, st'). csv_fault env = None) reqs"
  shows "files (run_session reqs w) (csv_filename st) =
     (let rows = map (\<lambda>(env, d, st'). csv_row env d st')
                   (filter (\<lambda>(env, d, st'). strip d \<noteq> [] \<and> st' = st) reqs)
      in if rows = [] then files w (csv_filename st)
         else Some ((case files w (csv_filename st) of None \<Rightarrow> csv_line csv_header
                     | Some old \<Rightarrow> old) @
                    concat (map csv_line rows)))"
  using assms
proof (induction reqs arbitrary: w)
  case Nil
  show ?case by simp
next
  case (Cons r rs)
  obtain env d st' where r: "r = (env, d, st')" by (cases r)
  from Cons.prems have calm: "csv_fault env = None"
    and rest: "list_all (\<lambda>(env, d, st'). csv_fault env = None) rs"
    by (auto simp add: r list_all_iff)
  show ?case
    by (simp add: r Cons.IH [OF rest] submit_files [OF calm] Let_def split: option.splits)
qed

lemma six_scans:
  "filter (\<lambda>(env, d, st'). strip d \<noteq> [] \<and> st' = ''DUD2'')
     (replicate 6 (calm, ''D123'', ''DUD2'')) = replicate 6 (calm, ''D123'', ''DUD2'')"
  by (simp add: strip_D123)

lemma strip_sp_D1: "strip '' D1'' = ''D1''"
  by (simp add: strip_def isspace_def)

lemma csv_field_plain:
  "csv_field ''D1'' = ''D1''" "csv_field ''DUD2'' = ''DUD2''"
  "csv_field ''12:00:07'' = ''12:00:07''" "csv_field ''2025-03-09'' = ''2025-03-09''"
  "csv_field ''2025-03-09 12:00:07'' = ''2025-03-09 12:00:07''"
  by (simp_all add: csv_field_def)

lemma times:
  "strftime_HMS noon = ''12:00:07''" "strftime_Ymd noon = ''2025-03-09''"
  "strftime_Ymd_HMS noon = ''2025-03-09 12:00:07''"
  by (simp_all add: strftime_Ymd_HMS_def strftime_HMS_def strftime_Ymd_def noon_def zfill_def
        str_nat.simps digit_char_def)

lemma csv_row_calm_D1:
  "csv_row calm ''D1'' ''DUD2'' =
     [''D1'', ''12:00:07'', ''2025-03-09'', ''DUD2'', ''2025-03-09 12:00:07'']"
  by (simp add: csv_row_def calm_def times)

lemma csv_line_D1:
  "csv_line (csv_row calm ''D1'' ''DUD2'') =
     ''D1,12:00:07,2025-03-09,DUD2,2025-03-09 12:00:07'' @ [CHR 0x0D, CHR 0x0A]"
  by (simp add: csv_row_calm_D1 csv_line_def csv_field_plain)

lemma csv_line_header:
  "csv_line csv_header =
     ''Driver ID,Scan Time,Scan Date,Station,Saved At'' @ [CHR 0x0D, CHR 0x0A]"
  by (simp add: csv_header_def csv_line_def csv_field_def)

lemma tab_fields:
  "sheets_get (sheets (tab data vals)) ''DUD2'' = Some (recording_sheet data vals None)"
  "remote (tab data vals) = []" "local_data (tab data vals) = []"
  by (simp_all add: tab_def initialize_session_state_def sheets_get_def)

lemma next_row_gap: "next_row [''Driver ID'', ''D7'', [], ''D8''] = 5"
  by (simp add: next_row_def)

lemma backup_header_fault_offline:
  "backup header_fault ''D1'' ''DUD2'' Map.empty =
     (Some (Exception ''No space left on device''), [''DUD2_scans.csv'' \<mapsto> []])"
  by (simp add: backup_def save_to_csv_def header_fault_def calm_def csv_filename_def Let_def)

section \<open>The claims\<close>

text \<open>
  C1. The count a processed scan computes is the number of ledger events, the event just
  appended included, whose driver id, scan date and station equal those of the scan. On a
  ledger that a session has built from \<open>w\<close> by the submitted forms \<open>reqs\<close>, it is the number
  of matching events already in \<open>w\<close>, plus the number of earlier forms with the same
  driver id, date and station, plus one: from an empty ledger the \<open>n\<close>-th matching scan
  computes \<open>n\<close>, the first one 1, and that number is the one in the count message.
\<close>

theorem nth_matching_scan_count:
  assumes "strip driver_id \<noteq> []"
    and "fst (backup env driver_id station (files (run_session reqs w))) = None"
  shows "let w' = snd (scan_id env driver_id station (run_session reqs w));
             scan_date = strftime_Ymd (now_date env);
             n = length (today_scans (local_data w) driver_id scan_date station) +
                 length (filter (\<lambda>(env', d', st').
                           d' = driver_id \<and> strftime_Ymd (now_date env') = scan_date \<and>
                           st' = station) reqs) + 1
         in local_data w' = local_data (run_session reqs w) @ [scan_event env driver_id station] \<and>
            length (today_scans (local_data w') driver_id scan_date station) = n \<and>
            count_message w' =
              ''Driver '' @ driver_id @ '' scanned '' @ str_nat n @
              (if 5 < n then '' times at '' @ station @ '' - Take break after this delivery''
               else '' times today at '' @ station)"
proof -
  let ?dt = "strftime_Ymd (now_date env)"
  let ?w = "run_session reqs w"
  let ?w' = "snd (scan_id env driver_id station ?w)"
  let ?n = "length (today_scans (local_data w) driver_id ?dt station) +
            length (filter (\<lambda>(env', d', st').
               d' = driver_id \<and> strftime_Ymd (now_date env') = ?dt \<and> st' = station) reqs) + 1"
  have before: "Suc (length (today_scans (local_data ?w) driver_id ?dt station)) = ?n"
    by (simp add: run_session_local_data today_scans_append today_scans_recorded [OF assms(1)])
  have ledger: "local_data ?w' = local_data ?w @ [scan_event env driver_id station]"
    by (simp add: scan_id_local_data assms(1))
  have count: "length (today_scans (local_data ?w') driver_id ?dt station) = ?n"
    by (simp only: ledger today_scans_append today_scans_own length_append before [symmetric])
       simp
  have msg: "count_message ?w' =
      ''Driver '' @ driver_id @ '' scanned '' @ str_nat ?n @
      (if 5 < ?n then '' times at '' @ station @ '' - Take break after this delivery''
       else '' times today at '' @ station)"
    by (simp only: scan_id_processed [OF assms] snd_conv sync_keeps Let_def before)
       simp
  show ?thesis
    unfolding Let_def using ledger count msg by blast
qed


theorem nth_matching_scan_count_witness:
  "strip ''D123'' \<noteq> [] \<and>
   fst (backup calm ''D123'' ''DUD2'' (files (run_session morning offline))) = None \<and>
   fst (backup calm ''D123'' ''DUD2'' (files (run_session [] offline))) = None \<and>
   length (today_scans
     (local_data (snd (scan_id calm ''D123'' ''DUD2'' (run_session morning offline))))
     ''D123'' (strftime_Ymd (now_date calm)) ''DUD2'') = 6 \<and>
   count_message (snd (scan_id calm ''D123'' ''DUD2'' (run_session morning offline))) =
     ''Driver D123 scanned 6 times at DUD2 - Take break after this delivery'' \<and>
   length (today_scans
     (local_data (snd (scan_id calm ''D123'' ''DUD2'' (run_session [] offline))))
     ''D123'' (strftime_Ymd (now_date calm)) ''DUD2'') = 1 \<and>
   count_message (snd (scan_id calm ''D123'' ''DUD2'' (run_session [] offline))) =
     ''Driver D123 scanned 1 times today at DUD2''"
proof -
  have h1: "strip ''D123'' \<noteq> []" by (simp add: strip_D123)
  have h2: "fst (backup calm ''D123'' ''DUD2'' (files (run_session reqs offline))) = None"
    for reqs
    by (rule backup_calm [OF calm_no_fault])
  have e: "today_scans (local_data offline) d dt st = []" for d dt st
    by (simp add: offline_fields today_scans_def)
  have one: "str_nat (Suc 0) = ''1''" by (simp add: str_nat.simps digit_char_def)
  show ?thesis
    using h1 h2 [of morning] h2 [of "[]"]
      nth_matching_scan_count [OF h1 h2 [of morning], unfolded Let_def morning_matches e,
        THEN conjunct2]
      nth_matching_scan_count [OF h1 h2 [of "[]"], unfolded Let_def e, THEN conjunct2]
    by (simp add: str_nat_6 one)
qed


text \<open>
  C2. For every processed scan (a valid scan whose backup write does not raise) with
  computed count \<open>c\<close>, the number of matching ledger events after the append: if \<open>c > 5\<close>
  the colour is yellow, the display is the break warning (\<open>BREAK_DUE\<close>) and the message is
  \<open>Driver ID\<close> followed by \<open>scanned c times at STATION - Take break after this delivery\<close>;
  if \<open>c \<le> 5\<close> the colour is lightgreen, the display is the normal one (\<open>NORMAL\<close>) and
  the message is \<open>Driver ID\<close> followed by \<open>scanned c times today at STATION\<close>. So
  \<open>c = 5\<close> is \<open>NORMAL\<close> and \<open>c = 6\<close> is \<open>BREAK_DUE\<close>.
\<close>

theorem alert_threshold:
  assumes "strip driver_id \<noteq> []"
    and "fst (backup env driver_id station (files w)) = None"
  shows "let w' = snd (scan_id env driver_id station w);
             c = length (today_scans (local_data w') driver_id (strftime_Ymd (now_date env)) station)
         in c = Suc (length (today_scans (local_data w) driver_id
                               (strftime_Ymd (now_date env)) station)) \<and>
            (5 < c \<longrightarrow>
               alert_state w' = BREAK_DUE \<and> count_color w' = ''yellow'' \<and>
               count_message w' =
                 ''Driver '' @ driver_id @ '' scanned '' @ str_nat c @ '' times at '' @ station @
                 '' - Take break after this delivery'') \<and>
            (c \<le> 5 \<longrightarrow>
               alert_state w' = NORMAL \<and> count_color w' = ''lightgreen'' \<and>
               count_message w' =
                 ''Driver '' @ driver_id @ '' scanned '' @ str_nat c @ '' times today at '' @
                 station)"
  by (simp only: scan_id_processed [OF assms] fst_conv snd_conv sync_keeps Let_def)
     (simp add: alert_state_def sync_keeps today_scans_append today_scans_own)

theorem alert_threshold_witness:
  "strip ''D123'' \<noteq> [] \<and>
   fst (backup calm ''D123'' ''DUD2'' (files (scanned 4))) = None \<and>
   fst (backup calm ''D123'' ''DUD2'' (files (scanned 5))) = None \<and>
   count_message (snd (scan_id calm ''D123'' ''DUD2'' (scanned 4))) =
     ''Driver D123 scanned 5 times today at DUD2'' \<and>
   count_color (snd (scan_id calm ''D123'' ''DUD2'' (scanned 4))) = ''lightgreen'' \<and>
   alert_state (snd (scan_id calm ''D123'' ''DUD2'' (scanned 4))) = NORMAL \<and>
   count_message (snd (scan_id calm ''D123'' ''DUD2'' (scanned 5))) =
     ''Driver D123 scanned 6 times at DUD2 - Take break after this delivery'' \<and>
   count_color (snd (scan_id calm ''D123'' ''DUD2'' (scanned 5))) = ''yellow'' \<and>
   alert_state (snd (scan_id calm ''D123'' ''DUD2'' (scanned 5))) = BREAK_DUE"
proof -
  have h1: "strip ''D123'' \<noteq> []" by (simp add: strip_D123)
  have h2: "fst (backup calm ''D123'' ''DUD2'' (files (scanned n))) = None" for n
    by (rule backup_calm [OF calm_no_fault])
  have n: "length (today_scans (local_data (scanned n)) ''D123'' (strftime_Ymd (now_date calm))
             ''DUD2'') = n" for n
    by (simp add: scanned_def today_scans_replicate)
  show ?thesis
    using h1 h2 [of 4] h2 [of 5]
      alert_threshold [OF h1 h2 [of 4], unfolded Let_def n]
      alert_threshold [OF h1 h2 [of 5], unfolded Let_def n]
    by (simp add: str_nat_5 str_nat_6)
qed

text \<open>
  C3. A scan whose \<open>driver_id\<close> is empty or consists of whitespace only is rejected: the
  error message is shown and nothing else of the state changes, so no event is appended to
  the ledger, no backup file is written, no remote call is made, and the count message,
  its colour and the status text stay as they were.
\<close>

theorem blank_driver_id_rejected:
  assumes "list_all isspace driver_id"
  shows "scan_id env driver_id station w =
           (None, w\<lparr>ui_errors := ui_errors w @ [''Please enter a Driver ID'']\<rparr>)"
  using assms by (simp add: scan_id_def strip_Nil_iff)

theorem blank_driver_id_rejected_witness:
  "list_all isspace '' '' \<and>
   scan_id calm '' '' ''DUD2'' offline =
     (None, offline\<lparr>ui_errors := [''Please enter a Driver ID'']\<rparr>) \<and>
   local_data (snd (scan_id calm '' '' ''DUD2'' offline)) = [] \<and>
   files (snd (scan_id calm '' '' ''DUD2'' offline)) ''DUD2_scans.csv'' = None \<and>
   remote (snd (scan_id calm '' '' ''DUD2'' offline)) = []"
proof -
  have b: "list_all isspace '' ''" by (simp add: isspace_def)
  have e: "ui_errors offline = []" by (simp add: offline_def initialize_session_state_def)
  show ?thesis
    using b blank_driver_id_rejected [OF b, of calm "''DUD2''" offline]
    by (simp add: e) (simp add: offline_def initialize_session_state_def)
qed

text \<open>
  C4, as the code has it. For every sync against a present worksheet whose reads succeed:
  with \<open>first_column\<close> the values that \<open>col_values(1)\<close> returns, the empty ones among them
  included (read after the header has been appended to a tab without values),
  \<open>sync_single_scan\<close> ends in the single call \<open>update\<close> on the range \<open>A{n}:E{n}\<close> with
  \<open>n = max 2 (length first_column + 1)\<close>, the number of the returned values plus one and never
  less than row 2, and with the one row of the five fields. The remote spreadsheet
  afterwards is the one that call leaves, and the status text tells whether it raised.
\<close>

theorem next_row_placement:
  assumes "sheets_get (sheets w) station = Some sheet"
    and "get_all_values sheet (remote w) = (Inr existing_data, r1)"
    and "(if existing_data = [] then append_row sheet sheet_header r1 else (Inr (), r1)) =
           (Inr (), r2)"
    and "col_values sheet 1 r2 = (Inr first_column, r3)"
  shows "let n = max 2 (length first_column + 1);
             written = update sheet (''A'' @ str_nat n @ '':E'' @ str_nat n)
                         [[driver_id, scan_time, scan_date, station, uploaded_at]] r3
         in upload sheet uploaded_at driver_id scan_time scan_date station (remote w) = written \<and>
            sync_single_scan uploaded_at driver_id scan_time scan_date station w =
              w\<lparr>remote := snd written,
                status_text :=
                  (case fst written of
                     Inr _ \<Rightarrow> ''Uploaded to '' @ station @ '' Google Sheet tab: '' @ driver_id
                   | Inl e \<Rightarrow> ''Google Sheets sync failed: '' @ str_exn e)\<rparr>"
proof -
  let ?n = "max 2 (length first_column + 1)"
  let ?written = "update sheet (''A'' @ str_nat ?n @ '':E'' @ str_nat ?n)
                    [[driver_id, scan_time, scan_date, station, uploaded_at]] r3"
  have row: "next_row first_column = ?n"
    by (cases first_column) (simp_all add: next_row_def)
  have up: "upload sheet uploaded_at driver_id scan_time scan_date station (remote w) = ?written"
    using assms(2-4) by (simp add: upload_def range_name_def row)
  have "sync_single_scan uploaded_at driver_id scan_time scan_date station w =
      w\<lparr>remote := snd ?written,
        status_text :=
          (case fst ?written of
             Inr _ \<Rightarrow> ''Uploaded to '' @ station @ '' Google Sheet tab: '' @ driver_id
           | Inl e \<Rightarrow> ''Google Sheets sync failed: '' @ str_exn e)\<rparr>"
  proof (cases ?written)
    case (Pair res r4)
    then show ?thesis
      by (cases res) (simp_all add: sync_single_scan_def assms(1) up)
  qed
  with up show ?thesis by (simp add: Let_def)
qed

theorem next_row_placement_witness:
  "sheets_get (sheets (tab [sheet_header] [''Driver ID'', ''D7'', ''D8''])) ''DUD2'' =
     Some (recording_sheet [sheet_header] [''Driver ID'', ''D7'', ''D8''] None) \<and>
   remote (sync_single_scan ''2025-03-09 12:00:07'' ''D1'' ''12:00:07'' ''2025-03-09'' ''DUD2''
             (tab [sheet_header] [''Driver ID'', ''D7'', ''D8''])) =
     [GetAllValues, ColValues 1,
      Update ''A4:E4'' [[''D1'', ''12:00:07'', ''2025-03-09'', ''DUD2'', ''2025-03-09 12:00:07'']]] \<and>
   status_text (sync_single_scan ''2025-03-09 12:00:07'' ''D1'' ''12:00:07'' ''2025-03-09'' ''DUD2''
             (tab [sheet_header] [''Driver ID'', ''D7'', ''D8''])) =
     ''Uploaded to DUD2 Google Sheet tab: D1'' \<and>
   remote (sync_single_scan ''2025-03-09 12:00:07'' ''D1'' ''12:00:07'' ''2025-03-09'' ''DUD2''
             (tab [] [])) =
     [GetAllValues, AppendRow sheet_header, ColValues 1,
      Update ''A2:E2'' [[''D1'', ''12:00:07'', ''2025-03-09'', ''DUD2'', ''2025-03-09 12:00:07'']]]"
proof -
  let ?full = "recording_sheet [sheet_header] [''Driver ID'', ''D7'', ''D8''] None"
  let ?empty = "recording_sheet [] [] None"
  have s: "sheets_get (sheets (tab [sheet_header] [''Driver ID'', ''D7'', ''D8''])) ''DUD2'' =
      Some ?full"
    by (rule tab_fields)
  have a: "get_all_values ?full (remote (tab [sheet_header] [''Driver ID'', ''D7'', ''D8''])) =
      (Inr [sheet_header], [GetAllValues])"
    by (simp add: recording_sheet_def tab_fields)
  have b: "(if [sheet_header] = [] then append_row ?full sheet_header [GetAllValues]
            else (Inr (), [GetAllValues])) = (Inr (), [GetAllValues])"
    by simp
  have c: "col_values ?full 1 [GetAllValues] =
      (Inr [''Driver ID'', ''D7'', ''D8''], [GetAllValues, ColValues 1])"
    by (simp add: recording_sheet_def)
  have s': "sheets_get (sheets (tab [] [])) ''DUD2'' = Some ?empty"
    by (rule tab_fields)
  have a': "get_all_values ?empty (remote (tab [] [])) = (Inr [], [GetAllValues])"
    by (simp add: recording_sheet_def tab_fields)
  have b': "(if ([] :: row list) = [] then append_row ?empty sheet_header [GetAllValues]
            else (Inr (), [GetAllValues])) = (Inr (), [GetAllValues, AppendRow sheet_header])"
    by (simp add: recording_sheet_def)
  have c': "col_values ?empty 1 [GetAllValues, AppendRow sheet_header] =
      (Inr [], [GetAllValues, AppendRow sheet_header, ColValues 1])"
    by (simp add: recording_sheet_def)
  have l: "max 2 (length [''Driver ID'', ''D7'', ''D8''] + 1) = 4"
    "max 2 (length ([] :: string list) + 1) = 2"
    by simp_all
  show ?thesis
    using s
      next_row_placement [OF s a b c, unfolded Let_def l str_nat_4, THEN conjunct2]
      next_row_placement [OF s' a' b' c', unfolded Let_def l str_nat_2, THEN conjunct2]
    by (simp add: recording_sheet_def)
qed

text \<open>
  C4 as stated, with the number of the non-empty values, fails for a first column with an
  empty cell between filled ones: the code writes row 5, and the number of non-empty values
  plus one is 4.
\<close>

theorem next_row_counts_blank_cells:
  "remote (sync_single_scan ''2025-03-09 12:00:07'' ''D1'' ''12:00:07'' ''2025-03-09'' ''DUD2''
             (tab [sheet_header] [''Driver ID'', ''D7'', [], ''D8''])) =
     [GetAllValues, ColValues 1,
      Update ''A5:E5'' [[''D1'', ''12:00:07'', ''2025-03-09'', ''DUD2'', ''2025-03-09 12:00:07'']]] \<and>
   spec_next_row [''Driver ID'', ''D7'', [], ''D8''] = 4"
proof -
  have "str_nat 5 = ''5''" by (rule str_nat_5)
  then show ?thesis
    by (simp add: sync_single_scan_def tab_fields upload_def recording_sheet_def sheet_header_def
          next_row_gap range_name_def spec_next_row_def)
qed





text \<open>
  C6. For every valid scan whose backup write succeeded at a station without a usable
  worksheet (no entry, or the entry \<open>None\<close>): no exception leaves \<open>scan_id\<close>, the status text
  is \<open>No Google Sheet tab available for STATION\<close>, the remote spreadsheet receives no call,
  the event is the last entry of the ledger and the line of its row is the end of the
  station's backup file (after the header line, when the scan created the file).
\<close>

theorem no_target_sync_skipped:
  assumes "strip driver_id \<noteq> []"
    and "fst (backup env driver_id station (files w)) = None"
    and "sheets_get (sheets w) station = None"
  shows "fst (scan_id env driver_id station w) = None \<and>
    status_text (snd (scan_id env driver_id station w)) =
      ''No Google Sheet tab available for '' @ station \<and>
    remote (snd (scan_id env driver_id station w)) = remote w \<and>
    local_data (snd (scan_id env driver_id station w)) =
      local_data w @ [scan_event env driver_id station] \<and>
    files (snd (scan_id env driver_id station w)) (csv_filename station) =
      Some ((case files w (csv_filename station) of None \<Rightarrow> csv_line csv_header
             | Some content \<Rightarrow> content) @
            csv_line (csv_row env driver_id station))"
proof -
  show ?thesis
    by (simp only: scan_id_processed [OF assms(1,2)] fst_conv snd_conv)
       (simp add: Let_def sync_no_target assms(3) backup_ok [OF assms(2)])
qed

theorem no_target_sync_skipped_witness:
  "strip ''D1'' \<noteq> [] \<and>
   fst (backup calm ''D1'' ''DUD2'' (files offline)) = None \<and>
   sheets_get (sheets offline) ''DUD2'' = None \<and>
   fst (scan_id calm ''D1'' ''DUD2'' offline) = None \<and>
   status_text (snd (scan_id calm ''D1'' ''DUD2'' offline)) =
     ''No Google Sheet tab available for DUD2'' \<and>
   remote (snd (scan_id calm ''D1'' ''DUD2'' offline)) = [] \<and>
   local_data (snd (scan_id calm ''D1'' ''DUD2'' offline)) = [scan_event calm ''D1'' ''DUD2''] \<and>
   files (snd (scan_id calm ''D1'' ''DUD2'' offline)) ''DUD2_scans.csv'' =
     Some (csv_line csv_header @ csv_line (csv_row calm ''D1'' ''DUD2''))"
proof -
  have h1: "strip ''D1'' \<noteq> []" by (simp add: strip_D1)
  have h2: "fst (backup calm ''D1'' ''DUD2'' (files offline)) = None"
    by (rule backup_calm [OF calm_no_fault])
  have h3: "sheets_get (sheets offline) ''DUD2'' = None"
    by (simp add: offline_fields sheets_get_def)
  show ?thesis
    using h1 h2 h3 no_target_sync_skipped [OF h1 h2 h3]
    by (simp add: offline_fields csv_filename_def)
qed

text \<open>
  C7, as the code has it. For every station and every session in which no backup write
  fails: with \<open>rows\<close> the data rows of the valid scans at that station, in order, a backup
  file that did not exist holds the line of the header row
  \<open>Driver ID, Scan Time, Scan Date, Station, Saved At\<close> and then the lines of \<open>rows\<close> (and
  stays absent when there is no such scan); a file that existed, also one without text, gets
  no header and holds its former text followed by the lines of \<open>rows\<close>; no data row equals
  the header. So the header is written once, on the write that creates the file, every
  recorded scan appends one row, nothing is truncated or rewritten, and after \<open>n\<close> recorded
  scans the file the session created has one header row and \<open>n\<close> data rows.
\<close>

theorem backup_file_one_header:
  assumes "list_all (\<lambda>(env, d, st'). csv_fault env = None) reqs"
  shows "let filename = csv_filename station;
             header = [''Driver ID'', ''Scan Time'', ''Scan Date'', ''Station'', ''Saved At''];
             rows = map (\<lambda>(env, d, st'). csv_row env d st')
                      (filter (\<lambda>(env, d, st'). strip d \<noteq> [] \<and> st' = station) reqs)
         in files (run_session reqs w) filename =
              (case files w filename of
                 None \<Rightarrow> if rows = [] then None else Some (concat (map csv_line (header # rows)))
               | Some old \<Rightarrow> Some (old @ concat (map csv_line rows))) \<and>
            length (filter (\<lambda>r. r = header) rows) = 0"
proof -
  have "filter (\<lambda>r. r = csv_header) (map (\<lambda>(env, d, st'). csv_row env d st') xs) = []"
    for xs :: "request list"
    by (induction xs) (auto simp add: csv_row_not_header)
  then show ?thesis
    unfolding csv_header_def [symmetric]
    by (simp add: run_session_files [OF assms] Let_def split: option.splits)
qed

theorem backup_file_one_header_witness:
  "list_all (\<lambda>(env, d, st'). csv_fault env = None) (replicate 6 (calm, ''D123'', ''DUD2'')) \<and>
   files (run_session (replicate 6 (calm, ''D123'', ''DUD2'')) offline) ''DUD2_scans.csv'' =
     Some (concat (map csv_line
       ([''Driver ID'', ''Scan Time'', ''Scan Date'', ''Station'', ''Saved At''] #
        replicate 6 (csv_row calm ''D123'' ''DUD2'')))) \<and>
   csv_line [''Driver ID'', ''Scan Time'', ''Scan Date'', ''Station'', ''Saved At''] =
     ''Driver ID,Scan Time,Scan Date,Station,Saved At'' @ [CHR 0x0D, CHR 0x0A]"
proof -
  have h: "list_all (\<lambda>(env, d, st'). csv_fault env = None)
      (replicate 6 (calm, ''D123'', ''DUD2''))"
    by (simp add: list_all_iff calm_no_fault)
  have f: "files offline ''DUD2_scans.csv'' = None"
    by (simp add: offline_fields)
  have n: "csv_filename ''DUD2'' = ''DUD2_scans.csv''"
    by (simp add: csv_filename_def)
  show ?thesis
    using h backup_file_one_header [OF h, of "''DUD2''" offline, unfolded Let_def six_scans f n,
        THEN conjunct1]
      csv_line_header [unfolded csv_header_def]
    by simp
qed

text \<open>
  C7 as stated, for every sequence of recorded scans, fails after a first backup write that
  raised at the header: the file is there without text, and the two recorded scans that
  follow leave two data lines and no header. The same holds for a backup file that is in
  place, without text, when the session starts.
\<close>

theorem backup_file_without_header:
  "files (run_session [(header_fault, ''D1'', ''DUD2''), (calm, ''D1'', ''DUD2''),
                       (calm, ''D1'', ''DUD2'')] offline) ''DUD2_scans.csv'' =
     Some (''D1,12:00:07,2025-03-09,DUD2,2025-03-09 12:00:07'' @ [CHR 0x0D, CHR 0x0A] @
           ''D1,12:00:07,2025-03-09,DUD2,2025-03-09 12:00:07'' @ [CHR 0x0D, CHR 0x0A]) \<and>
   files (snd (scan_id calm ''D1'' ''DUD2'' stale)) ''DUD2_scans.csv'' =
     Some (''D1,12:00:07,2025-03-09,DUD2,2025-03-09 12:00:07'' @ [CHR 0x0D, CHR 0x0A])"
proof -
  have v: "strip ''D1'' \<noteq> []" by (simp add: strip_D1)
  have f: "fst (backup header_fault ''D1'' ''DUD2'' (files offline)) =
      Some (Exception ''No space left on device'')"
    by (simp add: offline_fields backup_header_fault_offline)
  have first: "files (snd (scan_id header_fault ''D1'' ''DUD2'' offline)) =
      [''DUD2_scans.csv'' \<mapsto> []]"
    by (simp add: scan_id_raised [OF v f] offline_fields backup_header_fault_offline)
  have name: "csv_filename ''DUD2'' = ''DUD2_scans.csv''"
    by (simp add: csv_filename_def)
  have one: "files (snd (scan_id calm ''D1'' ''DUD2'' w)) ''DUD2_scans.csv'' =
      Some ((case files w ''DUD2_scans.csv'' of None \<Rightarrow> csv_line csv_header
             | Some content \<Rightarrow> content) @ csv_line (csv_row calm ''D1'' ''DUD2''))"
    for w :: "call list world"
    by (simp add: scan_id_files [OF calm_no_fault] v name)
  have stale: "files stale ''DUD2_scans.csv'' = Some []"
    by (simp add: stale_def initialize_session_state_def)
  show ?thesis
    by (simp add: submit_def one first stale csv_line_D1)
qed




text \<open>
  C9, as the code has it. Every event stored in the ledger has a driver id that is not
  blank (it is non-empty and its trimmed form is non-empty), and the driver id is stored as
  it was submitted, untrimmed: the ledger's driver ids are those of the session's non-blank
  forms, in order.
\<close>

theorem stored_driver_id_as_submitted:
  assumes "list_all (\<lambda>(d0, d1, d2, d3). strip d0 \<noteq> []) (local_data w)"
  shows "map fst (local_data (run_session reqs w)) =
           map fst (local_data w) @
           filter (\<lambda>d. strip d \<noteq> []) (map (\<lambda>(env, d, st). d) reqs) \<and>
         list_all (\<lambda>(d0, d1, d2, d3). d0 \<noteq> [] \<and> strip d0 \<noteq> [])
           (local_data (run_session reqs w))"
proof -
  have ids: "map fst (map (\<lambda>(env, d, st). scan_event env d st)
                (filter (\<lambda>(env, d, st). strip d \<noteq> []) rs)) =
             filter (\<lambda>d. strip d \<noteq> []) (map (\<lambda>(env, d, st). d) rs)"
    for rs :: "request list"
    by (induction rs) (auto simp add: scan_event_def)
  have new: "list_all (\<lambda>(d0, d1, d2, d3). d0 \<noteq> [] \<and> strip d0 \<noteq> [])
               (map (\<lambda>(env, d, st). scan_event env d st)
                  (filter (\<lambda>(env, d, st). strip d \<noteq> []) rs))"
    for rs :: "request list"
    by (induction rs) (auto simp add: scan_event_def)
  have old: "list_all (\<lambda>(d0, d1, d2, d3). d0 \<noteq> [] \<and> strip d0 \<noteq> []) (local_data w)"
    using assms by (auto simp add: list_all_iff)
  show ?thesis
    unfolding run_session_local_data map_append list_all_append ids
    using new old by simp
qed

theorem stored_driver_id_as_submitted_witness:
  "list_all (\<lambda>(d0, d1, d2, d3). strip d0 \<noteq> []) (local_data offline) \<and>
   map fst (local_data (run_session [(calm, '' D1'', ''DUD2''), (calm, ''  '', ''DUD2''),
                                     (calm, ''D1'', ''DUD2'')] offline)) =
     ['' D1'', ''D1''] \<and>
   list_all (\<lambda>(d0, d1, d2, d3). d0 \<noteq> [] \<and> strip d0 \<noteq> [])
     (local_data (run_session [(calm, '' D1'', ''DUD2''), (calm, ''  '', ''DUD2''),
                               (calm, ''D1'', ''DUD2'')] offline))"
proof -
  have h: "list_all (\<lambda>(d0, d1, d2, d3). strip d0 \<noteq> []) (local_data offline)"
    by (simp add: offline_fields)
  have b: "strip ''  '' = []"
    by (simp add: strip_def isspace_def)
  show ?thesis
    using h stored_driver_id_as_submitted [OF h,
        of "[(calm, '' D1'', ''DUD2''), (calm, ''  '', ''DUD2''), (calm, ''D1'', ''DUD2'')]"]
    by (simp add: offline_fields strip_sp_D1 strip_D1 b)
qed

text \<open>
  C9 as stated, that a stored driver id equals its own trimmed form, fails for the
  scan of \<open>" D1"\<close>: the ledger holds the id with its leading blank.
\<close>

theorem stored_driver_id_untrimmed:
  "local_data (snd (scan_id calm '' D1'' ''DUD2'' offline)) =
     [('' D1'', strftime_HMS noon, strftime_Ymd noon, ''DUD2'')] \<and>
   strip '' D1'' = ''D1'' \<and> '' D1'' \<noteq> ''D1''"
  by (simp add: scan_id_local_data strip_sp_D1 offline_fields scan_event_def calm_def)

text \<open>
  C10. When the backup write raises during a valid scan, the exception leaves \<open>scan_id\<close>
  after the event has been appended to the ledger: the state afterwards differs from the
  state before only in the ledger (the event is there), the status text and the files, so
  the count message and its colour are the ones shown before and the remote spreadsheet
  has received no call.
\<close>

theorem backup_failure_skips_count_and_sync:
  assumes "strip driver_id \<noteq> []"
    and "fst (backup env driver_id station (files w)) = Some e"
  shows "scan_id env driver_id station w =
    (Some e, w\<lparr>local_data := local_data w @ [scan_event env driver_id station],
               status_text := ''Scanned locally: '' @ driver_id @ '' @ '' @ station,
               files := snd (backup env driver_id station (files w))\<rparr>)"
  using assms by (rule scan_id_raised)

theorem backup_failure_skips_count_and_sync_witness:
  "strip ''D1'' \<noteq> [] \<and>
   fst (backup disk_full ''D1'' ''DUD2'' (files offline)) =
     Some (Exception ''No space left on device'') \<and>
   fst (scan_id disk_full ''D1'' ''DUD2'' offline) =
     Some (Exception ''No space left on device'') \<and>
   local_data (snd (scan_id disk_full ''D1'' ''DUD2'' offline)) =
     [scan_event disk_full ''D1'' ''DUD2''] \<and>
   count_message (snd (scan_id disk_full ''D1'' ''DUD2'' offline)) = '''' \<and>
   count_color (snd (scan_id disk_full ''D1'' ''DUD2'' offline)) = ''lightgreen'' \<and>
   remote (snd (scan_id disk_full ''D1'' ''DUD2'' offline)) = []"
proof -
  have v: "strip ''D1'' \<noteq> []" by (simp add: strip_D1)
  have f: "fst (backup disk_full ''D1'' ''DUD2'' (files offline)) =
      Some (Exception ''No space left on device'')"
    by (simp add: offline_def initialize_session_state_def backup_disk_full_offline)
  show ?thesis
    using v f backup_failure_skips_count_and_sync [OF v f]
    by (simp add: offline_def initialize_session_state_def)
qed

end
